theory Spec2Isabelle
  imports Main "HOL-Library.Word" "HOL-Library.Multiset"
begin

unbundle bit_operations_syntax

section \<open>Data model of eflags.h\<close>

text \<open>
  The header is generic in a scoped enumeration \<open>Enum\<close> with a fixed underlying
  integer type. A value of such an enumeration is any value of its underlying type
  (named or not), so an enumeration value is a wrapper around an underlying value:
  the constructor \<open>Enum\<close> is \<^verbatim>\<open>static_cast<Enum>(u)\<close> and the selector
  \<open>underlying\<close> is \<^verbatim>\<open>static_cast<std::underlying_type_t<Enum>>(e)\<close>.
  The underlying type is a machine integer of some width, \<open>'a word\<close>; the theory is
  generic in the width, as the template is (\<^verbatim>\<open>char\<close> and \<^verbatim>\<open>int\<close> in
  the header's own test).
\<close>

datatype 'u Enum = Enum (underlying: 'u)

text \<open>
  \<^verbatim>\<open>class EnumFlags\<close> has the single private member
  \<^verbatim>\<open>std::underlying_type_t<Enum> flags\<close>.
\<close>

record 'u EnumFlags =
  flags :: 'u

section \<open>The free operators (lines 13-35)\<close>

text \<open>
  \<^verbatim>\<open>return static_cast<Enum>(static_cast<underlying>(lhs) | static_cast<underlying>(rhs));\<close>
\<close>

definition operator_or :: "('a::len) word Enum \<Rightarrow> 'a word Enum \<Rightarrow> 'a word Enum" where
  "operator_or lhs rhs = Enum (underlying lhs OR underlying rhs)"

text \<open>
  \<^verbatim>\<open>return static_cast<Enum>(static_cast<underlying>(lhs) & static_cast<underlying>(rhs));\<close>
\<close>

definition operator_and :: "('a::len) word Enum \<Rightarrow> 'a word Enum \<Rightarrow> 'a word Enum" where
  "operator_and lhs rhs = Enum (underlying lhs AND underlying rhs)"

section \<open>The class EnumFlags (lines 42-124)\<close>

subsection \<open>Constructors\<close>

text \<open>\<^verbatim>\<open>constexpr EnumFlags() : flags(0)\<close>\<close>

definition EnumFlags_default :: "('a::len) word EnumFlags" where
  "EnumFlags_default = \<lparr>flags = 0\<rparr>"

text \<open>\<^verbatim>\<open>constexpr EnumFlags(Enum flag) : flags(static_cast<underlying>(flag))\<close>\<close>

definition EnumFlags_single :: "('a::len) word Enum \<Rightarrow> 'a word EnumFlags" where
  "EnumFlags_single flag = \<lparr>flags = underlying flag\<rparr>"

text \<open>
  The unary right fold \<^verbatim>\<open>(static_cast<underlying>(flags) | ...)\<close> over a pack
  \<open>e1, ..., eN\<close> is \<open>e1 | (e2 | (... | eN))\<close>. The pack is not empty: for an empty
  pack the fold over \<open>|\<close> is ill-formed, and overload resolution takes the default
  constructor for no argument. So the pack is its first element and the rest.
\<close>

fun fold_or :: "('a::len) word \<Rightarrow> 'a word list \<Rightarrow> 'a word" where
  "fold_or e [] = e"
| "fold_or e (e' # es) = e OR fold_or e' es"

text \<open>
  \<^verbatim>\<open>constexpr EnumFlags(Enums... flags) : flags((static_cast<underlying>(flags) | ...))\<close>
\<close>

definition EnumFlags_variadic :: "('a::len) word Enum \<Rightarrow> 'a word Enum list \<Rightarrow> 'a word EnumFlags" where
  "EnumFlags_variadic flag rest = \<lparr>flags = fold_or (underlying flag) (map underlying rest)\<rparr>"

subsection \<open>Member functions\<close>

text \<open>
  Each mutating member takes the object and returns it updated.

  \<^verbatim>\<open>flags |= static_cast<underlying>(flag);\<close>
\<close>

definition set_flag :: "('a::len) word EnumFlags \<Rightarrow> 'a word Enum \<Rightarrow> 'a word EnumFlags" where
  "set_flag s flag = s\<lparr>flags := flags s OR underlying flag\<rparr>"

text \<open>
  \<^verbatim>\<open>(set(flags), ...);\<close> is the fold \<open>set(e1), (set(e2), (..., set(eN)))\<close> over the
  comma operator, whose left operand is evaluated first: the single-flag \<open>set\<close> runs
  on each argument from left to right. For an empty pack the fold over the comma is
  \<^verbatim>\<open>void()\<close> and the object is unchanged.
\<close>

fun set_variadic :: "('a::len) word EnumFlags \<Rightarrow> 'a word Enum list \<Rightarrow> 'a word EnumFlags" where
  "set_variadic s [] = s"
| "set_variadic s (flag # rest) = set_variadic (set_flag s flag) rest"

text \<open>\<^verbatim>\<open>flags &= ~static_cast<underlying>(flag);\<close>\<close>

definition reset :: "('a::len) word EnumFlags \<Rightarrow> 'a word Enum \<Rightarrow> 'a word EnumFlags" where
  "reset s flag = s\<lparr>flags := flags s AND NOT (underlying flag)\<rparr>"

text \<open>\<^verbatim>\<open>return (flags & static_cast<underlying>(flag)) != 0;\<close>\<close>

definition hasFlag :: "('a::len) word EnumFlags \<Rightarrow> 'a word Enum \<Rightarrow> bool" where
  "hasFlag s flag = ((flags s AND underlying flag) \<noteq> 0)"

text \<open>\<^verbatim>\<open>explicit operator bool() const { return flags != 0; }\<close>\<close>

definition operator_bool :: "('a::len) word EnumFlags \<Rightarrow> bool" where
  "operator_bool s = (flags s \<noteq> 0)"

subsection \<open>Notions used to state the properties\<close>

text \<open>
  A single-bit value of the underlying type: one of the powers of two
  \<open>1 << 0, ..., 1 << (width - 1)\<close>, as the enumerators of the test enumerations are.
\<close>

definition single_bit :: "('a::len) word \<Rightarrow> bool" where
  "single_bit w = list_ex (\<lambda>n. w = push_bit n 1) [0..<LENGTH('a)]"

text \<open>
  The enumerators of \<^verbatim>\<open>enum class TEST_V1 : char\<close> (lines 136-140).
\<close>

definition TEST_V1_one :: "8 word Enum" where
  "TEST_V1_one = Enum (push_bit 0 1)"

definition TEST_V1_two :: "8 word Enum" where
  "TEST_V1_two = Enum (push_bit 1 1)"

definition TEST_V1_three :: "8 word Enum" where
  "TEST_V1_three = Enum (push_bit 2 1)"

text \<open>
  The enumerators of \<^verbatim>\<open>enum class TEST_V2 : int\<close> (lines 145-149).
\<close>

definition TEST_V2_one :: "32 word Enum" where
  "TEST_V2_one = Enum (push_bit 0 1)"

definition TEST_V2_two :: "32 word Enum" where
  "TEST_V2_two = Enum (push_bit 1 1)"

definition TEST_V2_three :: "32 word Enum" where
  "TEST_V2_three = Enum (push_bit 2 1)"

text \<open>
  \<^verbatim>\<open>debug_test\<close> (lines 154-208) runs the same steps on both enumerations; the
  steps are written once here, for the three enumerators given. The value is the
  conjunction of its assertions.
\<close>

definition debug_test :: "('a::len) word Enum \<Rightarrow> 'a word Enum \<Rightarrow> 'a word Enum \<Rightarrow> bool" where
  "debug_test one two three =
    (let flags0 = EnumFlags_default;
         flags1 = set_flag flags0 one;
         single = hasFlag flags1 one \<and> \<not> hasFlag flags1 two \<and> \<not> hasFlag flags1 three;
         flags2 = set_variadic flags1 [two, three];
         multiple = hasFlag flags2 one \<and> hasFlag flags2 two \<and> hasFlag flags2 three;
         flags3 = reset flags2 two;
         cleared = hasFlag flags3 one \<and> \<not> hasFlag flags3 two \<and> hasFlag flags3 three;
         flags4 = reset flags3 (operator_or (operator_or one two) three);
         all_cleared = \<not> hasFlag flags4 one \<and> \<not> hasFlag flags4 two \<and> \<not> hasFlag flags4 three
     in single \<and> multiple \<and> cleared \<and> all_cleared)"

section \<open>Integral promotion\<close>

text \<open>
  For an underlying type narrower than \<^verbatim>\<open>int\<close> (the \<^verbatim>\<open>char\<close> of
  \<^verbatim>\<open>TEST_V1\<close>), C++ evaluates \<open>|\<close>, \<open>&\<close> and \<open>~\<close> on the operands promoted to
  \<^verbatim>\<open>int\<close> (sign-extended for a signed type, zero-extended for an unsigned one) and
  the compound assignment converts the result back. The lemmas of this section show
  that this computes what the definitions above compute at the width of the
  underlying type, so the definitions need no separate case for narrow types.
\<close>

lemma promoted_or_signed:
  "LENGTH('a::len) \<le> LENGTH('b::len) \<Longrightarrow>
    (ucast (scast (x :: 'a word) OR scast y :: 'b word) :: 'a word) = x OR y"
  by (rule bit_word_eqI) (auto simp add: bit_simps)

lemma promoted_or_unsigned:
  "LENGTH('a::len) \<le> LENGTH('b::len) \<Longrightarrow>
    (ucast (ucast (x :: 'a word) OR ucast y :: 'b word) :: 'a word) = x OR y"
  by (rule bit_word_eqI) (auto simp add: bit_simps)

lemma promoted_and_not_signed:
  "LENGTH('a::len) \<le> LENGTH('b::len) \<Longrightarrow>
    (ucast (scast (x :: 'a word) AND NOT (scast y) :: 'b word) :: 'a word) = x AND NOT y"
  by (rule bit_word_eqI) (auto simp add: bit_simps)

lemma promoted_and_not_unsigned:
  "LENGTH('a::len) \<le> LENGTH('b::len) \<Longrightarrow>
    (ucast (ucast (x :: 'a word) AND NOT (ucast y) :: 'b word) :: 'a word) = x AND NOT y"
  by (rule bit_word_eqI) (auto simp add: bit_simps)

lemma promoted_and_signed:
  assumes "LENGTH('a::len) \<le> LENGTH('b::len)"
  shows "(scast (x :: 'a word) AND scast y :: 'b word) \<noteq> 0 \<longleftrightarrow> x AND y \<noteq> 0"
proof -
  have "(ucast (scast x AND scast y :: 'b word) :: 'a word) = x AND y"
    using assms by (intro bit_word_eqI) (auto simp add: bit_simps)
  moreover have "(scast x AND scast y :: 'b word) = scast (x AND y)"
    using assms by (intro bit_word_eqI) (auto simp add: bit_simps)
  ultimately show ?thesis by (metis scast_0 ucast_0)
qed

lemma promoted_and_unsigned:
  assumes "LENGTH('a::len) \<le> LENGTH('b::len)"
  shows "(ucast (x :: 'a word) AND ucast y :: 'b word) \<noteq> 0 \<longleftrightarrow> x AND y \<noteq> 0"
proof -
  have "(ucast (ucast x AND ucast y :: 'b word) :: 'a word) = x AND y"
    using assms by (intro bit_word_eqI) (auto simp add: bit_simps)
  moreover have "(ucast x AND ucast y :: 'b word) = ucast (x AND y)"
    using assms by (intro bit_word_eqI) (auto simp add: bit_simps)
  ultimately show ?thesis by (metis ucast_0)
qed

section \<open>Basic facts about the members\<close>

lemma set_flag_commute: "set_flag (set_flag s f) g = set_flag (set_flag s g) f"
  by (simp add: set_flag_def or.left_commute or.commute)


lemma fold_or_assoc: "fold_or (a OR b) es = a OR fold_or b es"
  by (induction es arbitrary: a b) (simp_all add: or.assoc)

lemma set_variadic_fold: "set_variadic s fs = fold (\<lambda>f s. set_flag s f) fs s"
  by (induction fs arbitrary: s) simp_all

text \<open>The variadic \<open>set\<close> in closed form: the mask is OR-ed with every argument.\<close>

lemma set_variadic_closed:
  "set_variadic s fs = s\<lparr>flags := fold_or (flags s) (map underlying fs)\<rparr>"
  by (induction fs arbitrary: s) (simp_all add: set_flag_def fold_or_assoc)

lemma set_variadic_mset:
  assumes "mset gs = mset fs"
  shows "set_variadic s gs = set_variadic s fs"
proof -
  have "fold (\<lambda>f s. set_flag s f) gs = fold (\<lambda>f s. set_flag s f) fs"
    using assms by (intro fold_multiset_equiv) (auto simp add: fun_eq_iff set_flag_commute)
  then show ?thesis by (simp add: set_variadic_fold)
qed

lemma single_bit_iff:
  "single_bit (w :: 'a::len word) \<longleftrightarrow> (\<exists>n<LENGTH('a). w = push_bit n 1)"
  by (auto simp add: single_bit_def list_ex_iff)

text \<open>
  For a single-bit value, a non-zero AND with the mask and "every bit of the value
  is in the mask" are the same test: both say that the one bit is set in the mask.
\<close>

lemma single_bit_and:
  assumes "single_bit (w :: 'a::len word)"
  shows "m AND w \<noteq> 0 \<longleftrightarrow> m AND w = w"
proof -
  from assms obtain n where n: "n < LENGTH('a)" and w: "w = push_bit n 1"
    by (auto simp add: single_bit_iff)
  have "m AND w \<noteq> 0 \<longleftrightarrow> bit m n"
    using n by (auto simp add: w bit_eq_iff [where ?'a = "'a word"] bit_simps)
  moreover have "m AND w = w \<longleftrightarrow> bit m n"
    using n by (auto simp add: w bit_eq_iff [where ?'a = "'a word"] bit_simps)
  ultimately show ?thesis by simp
qed

lemma hasFlag_zero: "\<not> hasFlag s (Enum 0)"
  by (simp add: hasFlag_def)

section \<open>The header's self-test\<close>

text \<open>
  Every assertion of \<^verbatim>\<open>debug_test\<close> holds in the model, for the \<^verbatim>\<open>char\<close>
  enumeration and for the \<^verbatim>\<open>int\<close> one.
\<close>

lemma debug_test_TEST_V1: "debug_test TEST_V1_one TEST_V1_two TEST_V1_three"
  by (simp add: debug_test_def TEST_V1_one_def TEST_V1_two_def TEST_V1_three_def
      EnumFlags_default_def set_flag_def reset_def hasFlag_def operator_or_def)

lemma debug_test_TEST_V2: "debug_test TEST_V2_one TEST_V2_two TEST_V2_three"
  by (simp add: debug_test_def TEST_V2_one_def TEST_V2_two_def TEST_V2_three_def
      EnumFlags_default_def set_flag_def reset_def hasFlag_def operator_or_def)

section \<open>The properties of the specification\<close>

subsection \<open>hasFlag\<close>

text \<open>
  C1, as the specification states it: \<open>hasFlag(f)\<close> is true if and only if every bit
  of \<open>f\<close> is set in the mask, that is \<open>mask AND f = f\<close>, also for a multi-bit \<open>f\<close>.
  The code tests \<open>(flags & f) != 0\<close>, so one common bit is enough: with only flag
  \<open>one\<close> in the mask, \<open>hasFlag(one | two)\<close> is true although \<open>two\<close> is missing.
\<close>

theorem C1_all_bits_counterexample:
  "\<not> (hasFlag \<lparr>flags = 1\<rparr> (operator_or TEST_V1_one TEST_V1_two) \<longleftrightarrow>
      flags \<lparr>flags = 1 :: 8 word\<rparr> AND underlying (operator_or TEST_V1_one TEST_V1_two)
        = underlying (operator_or TEST_V1_one TEST_V1_two))"
  by (simp add: hasFlag_def operator_or_def TEST_V1_one_def TEST_V1_two_def)

text \<open>
  C1, amended: for every state and every flag value \<open>f\<close>, \<open>hasFlag(f)\<close> is true if and
  only if \<open>mask AND f\<close> is not zero, that is at least one bit of \<open>f\<close> is set in the
  mask. For a single-bit \<open>f\<close> this is the same as \<open>mask AND f = f\<close>; for any
  non-zero \<open>f\<close>, \<open>mask AND f = f\<close> implies \<open>hasFlag(f)\<close>.
\<close>

theorem C1_hasFlag_any_bit:
  "(hasFlag s f \<longleftrightarrow> flags s AND underlying f \<noteq> 0) \<and>
   (single_bit (underlying f) \<longrightarrow>
      (hasFlag s f \<longleftrightarrow> flags s AND underlying f = underlying f)) \<and>
   (underlying f \<noteq> 0 \<and> flags s AND underlying f = underlying f \<longrightarrow> hasFlag s f)"
  using single_bit_and [of "underlying f" "flags s"] by (auto simp add: hasFlag_def)

text \<open>The amended C1 at mask \<open>one | three\<close> and flag \<open>three\<close>.\<close>

theorem C1_hasFlag_any_bit_witness:
  "single_bit (underlying TEST_V1_three) \<and>
   underlying TEST_V1_three \<noteq> 0 \<and>
   flags \<lparr>flags = 5 :: 8 word\<rparr> AND underlying TEST_V1_three = underlying TEST_V1_three \<and>
   hasFlag \<lparr>flags = 5\<rparr> TEST_V1_three"
proof -
  have sb: "single_bit (underlying TEST_V1_three)"
    by (simp add: TEST_V1_three_def single_bit_def upt_rec)
  have "flags \<lparr>flags = 5 :: 8 word\<rparr> AND underlying TEST_V1_three = underlying TEST_V1_three"
    by (simp add: TEST_V1_three_def)
  with sb C1_hasFlag_any_bit [where f = TEST_V1_three and s = "\<lparr>flags = 5\<rparr>"]
  show ?thesis by (simp add: TEST_V1_three_def)
qed

text \<open>
  C9: for every state and every flag value \<open>f\<close> (single-bit, multi-bit or zero),
  \<open>hasFlag(f)\<close> is false immediately after \<open>reset(f)\<close>.
\<close>

theorem C9_reset_then_hasFlag: "hasFlag (reset s f) f = False"
  by (simp add: hasFlag_def reset_def and.assoc)

text \<open>
  C2: \<open>reset\<close> of a combined value clears all its bits at once. From any state, after
  setting \<open>a\<close>, \<open>b\<close> and \<open>c\<close> and then \<open>reset(a | b | c)\<close>, the mask is the original
  one without the bits of \<open>a\<close>, \<open>b\<close> and \<open>c\<close>, and \<open>hasFlag\<close> is false for each of
  them. This holds for all flag values, in particular for distinct single-bit ones.
\<close>

theorem C2_bulk_reset:
  "flags (reset (set_flag (set_flag (set_flag s a) b) c) (operator_or (operator_or a b) c))
     = flags s AND NOT (underlying a OR underlying b OR underlying c) \<and>
   hasFlag (reset (set_flag (set_flag (set_flag s a) b) c) (operator_or (operator_or a b) c)) a
     = False \<and>
   hasFlag (reset (set_flag (set_flag (set_flag s a) b) c) (operator_or (operator_or a b) c)) b
     = False \<and>
   hasFlag (reset (set_flag (set_flag (set_flag s a) b) c) (operator_or (operator_or a b) c)) c
     = False"
proof -
  let ?m = "flags (reset (set_flag (set_flag (set_flag s a) b) c)
              (operator_or (operator_or a b) c))"
  have m: "?m = flags s AND NOT (underlying a OR underlying b OR underlying c)"
    by (rule bit_word_eqI) (auto simp add: reset_def set_flag_def operator_or_def bit_simps)
  have "?m AND underlying a = 0"
    unfolding m by (rule bit_word_eqI) (auto simp add: bit_simps)
  moreover have "?m AND underlying b = 0"
    unfolding m by (rule bit_word_eqI) (auto simp add: bit_simps)
  moreover have "?m AND underlying c = 0"
    unfolding m by (rule bit_word_eqI) (auto simp add: bit_simps)
  ultimately show ?thesis using m by (simp add: hasFlag_def)
qed

subsection \<open>set\<close>

text \<open>
  C6: \<open>set\<close> is idempotent: \<open>set(f)\<close> twice gives the state that \<open>set(f)\<close> once gives.
\<close>

theorem C6_set_idempotent: "set_flag (set_flag s f) f = set_flag s f"
  by (simp add: set_flag_def or.assoc)

text \<open>
  C7: \<open>set\<close> is commutative: \<open>set(f); set(g)\<close> and \<open>set(g); set(f)\<close> give the same
  state, for every state and all flags \<open>f\<close>, \<open>g\<close>.
\<close>

theorem C7_set_commutative: "set_flag (set_flag s f) g = set_flag (set_flag s g) f"
  by (simp add: set_flag_def or.left_commute or.commute)

text \<open>
  C3: the variadic \<open>set(f1, ..., fN)\<close> gives the state that the single-flag \<open>set\<close>,
  called once per argument, gives, and every reordering of the arguments gives the same
  state.
\<close>

theorem C3_set_variadic:
  "set_variadic s fs = foldl set_flag s fs \<and>
   (mset gs = mset fs \<longrightarrow> set_variadic s gs = set_variadic s fs)"
proof
  show "set_variadic s fs = foldl set_flag s fs"
    by (induction fs arbitrary: s) simp_all
  show "mset gs = mset fs \<longrightarrow> set_variadic s gs = set_variadic s fs"
    by (rule impI) (rule set_variadic_mset)
qed

text \<open>C3 at the arguments \<open>one, two, three\<close> and their reordering \<open>three, one, two\<close>.\<close>

theorem C3_set_variadic_witness:
  "mset [TEST_V1_three, TEST_V1_one, TEST_V1_two] = mset [TEST_V1_one, TEST_V1_two, TEST_V1_three] \<and>
   set_variadic EnumFlags_default [TEST_V1_three, TEST_V1_one, TEST_V1_two]
     = set_variadic EnumFlags_default [TEST_V1_one, TEST_V1_two, TEST_V1_three] \<and>
   flags (set_variadic EnumFlags_default [TEST_V1_one, TEST_V1_two, TEST_V1_three]) = 7"
proof -
  have h: "mset [TEST_V1_three, TEST_V1_one, TEST_V1_two]
      = mset [TEST_V1_one, TEST_V1_two, TEST_V1_three]"
    by (simp add: TEST_V1_one_def TEST_V1_two_def TEST_V1_three_def)
  have v: "flags (set_variadic EnumFlags_default [TEST_V1_one, TEST_V1_two, TEST_V1_three]) = 7"
    by (simp add: EnumFlags_default_def set_flag_def
        TEST_V1_one_def TEST_V1_two_def TEST_V1_three_def)
  from h v C3_set_variadic [where s = EnumFlags_default
      and fs = "[TEST_V1_one, TEST_V1_two, TEST_V1_three]"
      and gs = "[TEST_V1_three, TEST_V1_one, TEST_V1_two]"]
  show ?thesis by blast
qed

subsection \<open>Construction and conversion\<close>

text \<open>
  C4: a default-constructed object has mask 0, and \<open>hasFlag(f)\<close> is false on it for
  every flag \<open>f\<close>.
\<close>

theorem C4_default_empty:
  "flags (EnumFlags_default :: ('a::len) word EnumFlags) = 0 \<and>
   hasFlag (EnumFlags_default :: 'a word EnumFlags) f = False"
  by (simp add: EnumFlags_default_def hasFlag_def)

text \<open>
  C10: constructing from \<open>f1, ..., fN\<close> (the single-flag constructor for one
  argument, the variadic one otherwise) gives the state that default construction
  followed by \<open>set(f1, ..., fN)\<close> gives.
\<close>

theorem C10_construct_is_set:
  "EnumFlags_single f = set_variadic EnumFlags_default [f] \<and>
   EnumFlags_variadic f rest = set_variadic EnumFlags_default (f # rest)"
  by (simp add: EnumFlags_single_def EnumFlags_variadic_def EnumFlags_default_def
      set_variadic_closed set_flag_def)

text \<open>
  C8: the boolean conversion is true if and only if the mask is not 0; in particular
  an empty object converts to false.
\<close>

theorem C8_operator_bool:
  "operator_bool s = (flags s \<noteq> 0) \<and>
   operator_bool (EnumFlags_default :: ('a::len) word EnumFlags) = False"
  by (simp add: operator_bool_def EnumFlags_default_def)

subsection \<open>The free operators\<close>

text \<open>
  C5: \<open>operator|\<close> returns the enumeration value whose underlying integer is the
  bitwise OR of the underlying integers of its arguments, and \<open>operator&\<close> the one
  whose underlying integer is their bitwise AND. Both are functions of their two
  arguments alone, defined on all of them.
\<close>

theorem C5_operators:
  "operator_or lhs rhs = Enum (underlying lhs OR underlying rhs) \<and>
   underlying (operator_or lhs rhs) = underlying lhs OR underlying rhs \<and>
   operator_and lhs rhs = Enum (underlying lhs AND underlying rhs) \<and>
   underlying (operator_and lhs rhs) = underlying lhs AND underlying rhs"
  by (simp add: operator_or_def operator_and_def)

end
